theory Spec2Isabelle
  imports Complex_Main
begin

section \<open>ECG classification API: the request-to-prediction pipeline of main.py\<close>

text \<open>
  The development follows \<^verbatim>\<open>src/main.py\<close>. Python exceptions are values: a function
  that may raise returns \<open>exn + 'a\<close>, with \<open>Inl\<close> for the raised exception. Two kinds
  of exception matter to the handler: FastAPI's \<^verbatim>\<open>HTTPException(status_code, detail)\<close>
  and every other \<^verbatim>\<open>Exception\<close>, of which only \<^verbatim>\<open>str(e)\<close> is ever used.
\<close>

subsection \<open>Exceptions and configuration\<close>

datatype exn = HTTPException nat string | Exception string

text \<open>\<^verbatim>\<open>class Config\<close>: the allowed extensions and the size cap of 10 MiB.\<close>

definition ALLOWED_EXTENSIONS :: "string set" where
  "ALLOWED_EXTENSIONS = {''.dat'', ''.hea''}"

text \<open>
  \<^verbatim>\<open>', '.join(config.ALLOWED_EXTENSIONS)\<close> iterates a Python set, whose order is not
  fixed between runs; the order below is one of the two possible ones and no theorem
  depends on it.
\<close>

definition ALLOWED_EXTENSIONS_joined :: string where
  "ALLOWED_EXTENSIONS_joined = ''.dat, .hea''"

definition MAX_FILE_SIZE :: int where
  "MAX_FILE_SIZE = 10 * 1024 * 1024"

subsection \<open>Uploaded files\<close>

text \<open>
  An \<^verbatim>\<open>UploadFile\<close>: its filename (a multipart file part always has one, possibly
  empty), the bytes of its content (\<^verbatim>\<open>file\<close>, here \<open>file_content\<close>) and its declared
  size (\<^verbatim>\<open>size\<close>, an \<^verbatim>\<open>Optional[int]\<close>: \<open>None\<close> when absent).
\<close>

record UploadFile =
  filename :: string
  file_content :: string
  size_attr :: "int option"

subsection \<open>\<^verbatim>\<open>Path(name).suffix.lower()\<close>\<close>

text \<open>Splitting a string at a separator, as \<^verbatim>\<open>str.split(sep)\<close> does.\<close>

fun split_on :: "char \<Rightarrow> string \<Rightarrow> string list" where
  "split_on s [] = [[]]"
| "split_on s (c # cs) =
     (if c = s then [] # split_on s cs
      else (case split_on s cs of [] \<Rightarrow> [[c]] | w # ws \<Rightarrow> (c # w) # ws))"

text \<open>
  The components of a POSIX path as \<^verbatim>\<open>pathlib\<close> parses it: the string is split at
  \<^verbatim>\<open>/\<close>, and empty components and \<^verbatim>\<open>.\<close> components are dropped (\<^verbatim>\<open>..\<close> is kept).
  \<^verbatim>\<open>PurePosixPath.name\<close> is the last component, or the empty string when there is none.
\<close>

definition parts :: "string \<Rightarrow> string list" where
  "parts p = filter (\<lambda>c. c \<noteq> [] \<and> c \<noteq> ''.'') (split_on CHR ''/'' p)"

definition path_name :: "string \<Rightarrow> string" where
  "path_name p = (case parts p of [] \<Rightarrow> [] | c # cs \<Rightarrow> last (c # cs))"

text \<open>\<^verbatim>\<open>str.rfind(ch)\<close>: the highest index of the character, or -1.\<close>

definition rfind :: "string \<Rightarrow> char \<Rightarrow> int" where
  "rfind s c =
     (if c \<in> set s
      then int (length s) - 1 - int (length (takeWhile (\<lambda>x. x \<noteq> c) (rev s)))
      else - 1)"

text \<open>
  \<^verbatim>\<open>PurePath.suffix\<close>:
  \<^verbatim>\<open>i = name.rfind('.'); return name[i:] if 0 < i < len(name) - 1 else ''\<close>.
\<close>

definition suffix :: "string \<Rightarrow> string" where
  "suffix p =
     (let name = path_name p; i = rfind name CHR ''.''
      in if 0 < i \<and> i < int (length name) - 1 then drop (nat i) name else [])"

text \<open>\<^verbatim>\<open>PurePath.stem\<close>: the name without its suffix.\<close>

definition stem :: "string \<Rightarrow> string" where
  "stem p =
     (let name = path_name p; i = rfind name CHR ''.''
      in if 0 < i \<and> i < int (length name) - 1 then take (nat i) name else name)"

text \<open>
  \<^verbatim>\<open>str.lower()\<close> on the ASCII letters; every other byte is kept (no non-ASCII
  character lowers to a letter of \<^verbatim>\<open>.dat\<close> or \<^verbatim>\<open>.hea\<close>).
\<close>

definition lower_char :: "char \<Rightarrow> char" where
  "lower_char c =
     (let n = (of_char c :: nat)
      in if 65 \<le> n \<and> n \<le> 90 then char_of (n + 32) else c)"

definition lower :: "string \<Rightarrow> string" where
  "lower s = map lower_char s"

subsection \<open>Decimal rendering of integers in f-strings\<close>

fun str_nat :: "nat \<Rightarrow> string" where
  "str_nat n =
     (if n < 10 then [char_of (48 + n)]
      else str_nat (n div 10) @ [char_of (48 + n mod 10)])"

definition str_int :: "int \<Rightarrow> string" where
  "str_int i = (if i < 0 then CHR ''-'' # str_nat (nat (- i)) else str_nat (nat i))"

subsection \<open>\<^verbatim>\<open>validate_files\<close>\<close>

text \<open>
  The extension of one file, \<^verbatim>\<open>Path(f.filename).suffix.lower()\<close>, and the set of
  line 84 collecting them over the upload list.
\<close>

definition file_extension :: "UploadFile \<Rightarrow> string" where
  "file_extension f = lower (suffix (filename f))"

definition extensions_of :: "UploadFile list \<Rightarrow> string set" where
  "extensions_of files = set (map file_extension files)"

text \<open>
  The condition under which lines 85-90 raise: the outer test
  \<^verbatim>\<open>not ALLOWED.issubset(extensions | {ext for ext in extensions})\<close> and the inner test
  \<^verbatim>\<open>not any(ext in ALLOWED for ext in extensions)\<close>.
\<close>

definition extension_rejected :: "UploadFile list \<Rightarrow> bool" where
  "extension_rejected files =
     (let extensions = extensions_of files
      in \<not> ALLOWED_EXTENSIONS \<subseteq> extensions \<union> (\<lambda>ext. ext) ` extensions
         \<and> \<not> (\<exists>ext \<in> extensions. ext \<in> ALLOWED_EXTENSIONS))"

text \<open>
  The test of line 93, \<^verbatim>\<open>file.size and file.size > MAX_FILE_SIZE\<close>: \<open>None\<close> and
  \<open>0\<close> are falsy, so the comparison is made only for a present, non-zero size.
\<close>

definition too_large :: "UploadFile \<Rightarrow> bool" where
  "too_large f =
     (case size_attr f of
        None \<Rightarrow> False
      | Some n \<Rightarrow> n \<noteq> 0 \<and> n > MAX_FILE_SIZE)"

definition too_large_detail :: "UploadFile \<Rightarrow> string" where
  "too_large_detail f =
     ''File '' @ filename f @ '' is too large. Max size: ''
       @ str_int (MAX_FILE_SIZE div (1024 * 1024)) @ ''MB''"

text \<open>The loop of lines 92-97: the first file that is too large raises.\<close>

fun check_sizes :: "UploadFile list \<Rightarrow> exn + unit" where
  "check_sizes [] = Inr ()"
| "check_sizes (f # rest) =
     (if too_large f then Inl (HTTPException 413 (too_large_detail f))
      else check_sizes rest)"

definition validate_files :: "UploadFile list \<Rightarrow> exn + unit" where
  "validate_files files =
     (if files = [] then Inl (HTTPException 400 ''No files uploaded'')
      else if extension_rejected files
      then Inl (HTTPException 400
                 (''Please upload files with extensions: '' @ ALLOWED_EXTENSIONS_joined))
      else check_sizes files)"

subsection \<open>Arrays\<close>

text \<open>
  A two-dimensional numpy array of \<^verbatim>\<open>float64\<close> is a list of rows. Its entries are
  modelled as real numbers: the operations below are numpy's, in exact arithmetic, so
  the rounding of each floating-point operation is left out. The attribute
  \<^verbatim>\<open>shape\<close> is the number of rows and the length of the rows (taken from the first
  row; an array without rows has lost its second dimension in this representation, which
  reads as 0). \<open>is_ndarray\<close> says that all rows have that length, as in every numpy array.
\<close>

type_synonym ndarray = "real list list"

definition shape :: "ndarray \<Rightarrow> nat \<times> nat" where
  "shape W = (length W, (case W of [] \<Rightarrow> 0 | r # rs \<Rightarrow> length r))"

definition is_ndarray :: "ndarray \<Rightarrow> bool" where
  "is_ndarray W = (\<forall>r \<in> set W. length r = snd (shape W))"

text \<open>
  \<^verbatim>\<open>np.mean\<close> and \<^verbatim>\<open>np.std\<close> of a one-dimensional array. numpy's standard deviation
  is the population one (\<^verbatim>\<open>ddof=0\<close>): \<^verbatim>\<open>sqrt(mean(abs(x - x.mean())**2))\<close>.
\<close>

definition np_mean :: "real list \<Rightarrow> real" where
  "np_mean xs = sum_list xs / real (length xs)"

definition np_std :: "real list \<Rightarrow> real" where
  "np_std xs = sqrt (np_mean (map (\<lambda>x. \<bar>x - np_mean xs\<bar> ^ 2) xs))"

text \<open>
  \<^verbatim>\<open>a.mean(axis=1, keepdims=True)\<close> and \<^verbatim>\<open>a.std(axis=1, keepdims=True)\<close>: one value per
  row, kept as a column of shape \<open>(L, 1)\<close>.
\<close>

definition mean_axis1_keepdims :: "ndarray \<Rightarrow> ndarray" where
  "mean_axis1_keepdims W = map (\<lambda>r. [np_mean r]) W"

definition std_axis1_keepdims :: "ndarray \<Rightarrow> ndarray" where
  "std_axis1_keepdims W = map (\<lambda>r. [np_std r]) W"

text \<open>
  Broadcasting: a column of shape \<open>(L, 1)\<close> is stretched to \<open>n\<close> columns before an
  elementwise operation with an array of shape \<open>(L, n)\<close>.
\<close>

definition broadcast_to :: "nat \<Rightarrow> ndarray \<Rightarrow> ndarray" where
  "broadcast_to n M = map (\<lambda>r. case r of [m] \<Rightarrow> replicate n m | _ \<Rightarrow> r) M"

definition elementwise :: "(real \<Rightarrow> real \<Rightarrow> real) \<Rightarrow> ndarray \<Rightarrow> ndarray \<Rightarrow> ndarray" where
  "elementwise f A B = map2 (map2 f) A B"

definition add_scalar :: "ndarray \<Rightarrow> real \<Rightarrow> ndarray" where
  "add_scalar A c = map (map (\<lambda>x. x + c)) A"

subsection \<open>The normalizer (lines 157-159)\<close>

text \<open>
  \<^verbatim>\<open>(ecg_data - ecg_data.mean(axis=1, keepdims=True)) /
  (ecg_data.std(axis=1, keepdims=True) + 1e-8)\<close>
\<close>

definition normalize :: "ndarray \<Rightarrow> ndarray" where
  "normalize ecg_data =
     (let n = snd (shape ecg_data)
      in elementwise (/)
           (elementwise (-) ecg_data (broadcast_to n (mean_axis1_keepdims ecg_data)))
           (broadcast_to n (add_scalar (std_axis1_keepdims ecg_data) (1 / 10 ^ 8))))"

text \<open>
  The same computation written row by row; \<open>normalize_rows\<close> below proves that the
  broadcast expression above computes it. It is used in the proofs only.
\<close>

definition normalize_row :: "real list \<Rightarrow> real list" where
  "normalize_row r = map (\<lambda>x. (x - np_mean r) / (np_std r + 1 / 10 ^ 8)) r"

subsection \<open>\<^verbatim>\<open>calculate_ecg_stats\<close>\<close>

text \<open>
  \<^verbatim>\<open>np.max\<close> and \<^verbatim>\<open>np.min\<close> raise a \<^verbatim>\<open>ValueError\<close> on an array without entries;
  \<^verbatim>\<open>np.mean\<close> and \<^verbatim>\<open>np.std\<close> do not raise. Without an \<^verbatim>\<open>axis\<close> argument all four
  work on the flattened array.
\<close>

definition np_max :: "real list \<Rightarrow> exn + real" where
  "np_max xs =
     (if xs = []
      then Inl (Exception
                 ''zero-size array to reduction operation maximum which has no identity'')
      else Inr (Max (set xs)))"

definition np_min :: "real list \<Rightarrow> exn + real" where
  "np_min xs =
     (if xs = []
      then Inl (Exception
                 ''zero-size array to reduction operation minimum which has no identity'')
      else Inr (Min (set xs)))"

record EcgStats =
  num_leads :: nat
  signal_length :: nat
  mean_amplitude :: real
  std_amplitude :: real
  max_amplitude :: real
  min_amplitude :: real

definition calculate_ecg_stats :: "ndarray \<Rightarrow> exn + EcgStats" where
  "calculate_ecg_stats ecg_data =
     (let flat = concat ecg_data
      in case np_max flat of
           Inl e \<Rightarrow> Inl e
         | Inr mx \<Rightarrow>
             (case np_min flat of
                Inl e \<Rightarrow> Inl e
              | Inr mn \<Rightarrow>
                  Inr \<lparr>num_leads = fst (shape ecg_data),
                       signal_length = snd (shape ecg_data),
                       mean_amplitude = np_mean flat,
                       std_amplitude = np_std flat,
                       max_amplitude = mx,
                       min_amplitude = mn\<rparr>))"

subsection \<open>\<^verbatim>\<open>calculate_ecg_stats\<close> in \<^verbatim>\<open>float64\<close> arithmetic\<close>

text \<open>
  Rounding to \<^verbatim>\<open>float64\<close> (IEEE 754 binary64, round to nearest, ties to even), for the
  normal range and without overflow: a real number \<open>x\<close> with \<open>2^e \<le> |x| < 2^(e+1)\<close> is
  rounded to the nearest multiple of \<open>2^(e-52)\<close>.
\<close>

definition round_half_even :: "real \<Rightarrow> int" where
  "round_half_even x =
     (let f = \<lfloor>x\<rfloor>; d = x - of_int f
      in if d < 1 / 2 then f else if 1 / 2 < d then f + 1 else if even f then f else f + 1)"

definition f64 :: "real \<Rightarrow> real" where
  "f64 x =
     (if x = 0 then 0
      else (let ulp = 2 powi (\<lfloor>log 2 \<bar>x\<bar>\<rfloor> - 52)
            in of_int (round_half_even (x / ulp)) * ulp))"

text \<open>
  The statistics with every arithmetic operation rounded. \<^verbatim>\<open>np.mean\<close> is the sum divided
  by the count; \<^verbatim>\<open>np.std\<close> subtracts the mean, multiplies each difference by itself,
  takes the mean of the products and the square root. The sum adds from left to right,
  which is numpy's order for fewer than 8 entries (longer arrays are summed pairwise).
  Maximum and minimum involve no rounding.
\<close>

definition np_sum_f64 :: "real list \<Rightarrow> real" where
  "np_sum_f64 xs = foldl (\<lambda>acc x. f64 (acc + x)) 0 xs"

definition np_mean_f64 :: "real list \<Rightarrow> real" where
  "np_mean_f64 xs = f64 (np_sum_f64 xs / real (length xs))"

definition np_std_f64 :: "real list \<Rightarrow> real" where
  "np_std_f64 xs =
     (let arrmean = np_mean_f64 xs;
          x = map (\<lambda>a. f64 (a - arrmean)) xs;
          x2 = map (\<lambda>d. f64 (d * d)) x
      in f64 (sqrt (f64 (np_sum_f64 x2 / real (length xs)))))"

definition calculate_ecg_stats_f64 :: "ndarray \<Rightarrow> exn + EcgStats" where
  "calculate_ecg_stats_f64 ecg_data =
     (let flat = concat ecg_data
      in case np_max flat of
           Inl e \<Rightarrow> Inl e
         | Inr mx \<Rightarrow>
             (case np_min flat of
                Inl e \<Rightarrow> Inl e
              | Inr mn \<Rightarrow>
                  Inr \<lparr>num_leads = fst (shape ecg_data),
                       signal_length = snd (shape ecg_data),
                       mean_amplitude = np_mean_f64 flat,
                       std_amplitude = np_std_f64 flat,
                       max_amplitude = mx,
                       min_amplitude = mn\<rparr>))"

subsection \<open>The normalizer in \<^verbatim>\<open>float64\<close> arithmetic\<close>



subsection \<open>The file system and the temporary directory\<close>

text \<open>
  The file system maps the component list of an absolute, resolved path to a directory or
  to a regular file with its bytes; the root (the empty list) is always a directory.
  Symbolic links are not modelled.
\<close>

datatype node = File string | Dir

type_synonym filesystem = "string list \<Rightarrow> node option"

definition is_dir :: "filesystem \<Rightarrow> string list \<Rightarrow> bool" where
  "is_dir fs p = (p = [] \<or> fs p = Some Dir)"

fun join_slash :: "string list \<Rightarrow> string" where
  "join_slash [] = []"
| "join_slash [c] = c"
| "join_slash (c # d # cs) = c @ ''/'' @ join_slash (d # cs)"

definition is_absolute :: "string \<Rightarrow> bool" where
  "is_absolute p = (case p of [] \<Rightarrow> False | c # cs \<Rightarrow> c = CHR ''/'')"

text \<open>\<^verbatim>\<open>str(Path(...))\<close> of a path given by its root flag and components.\<close>

definition str_path :: "bool \<Rightarrow> string list \<Rightarrow> string" where
  "str_path absolute ps =
     (if absolute then ''/'' @ join_slash ps
      else if ps = [] then ''.'' else join_slash ps)"

text \<open>
  \<^verbatim>\<open>str(Path(a) / b)\<close>: an absolute right operand replaces the left one; otherwise the
  components are appended. Nothing is resolved here: \<^verbatim>\<open>..\<close> stays in the path.
\<close>

definition path_join :: "string \<Rightarrow> string \<Rightarrow> string" where
  "path_join a b =
     (if is_absolute b then str_path True (parts b)
      else str_path (is_absolute a) (parts a @ parts b))"

text \<open>
  Path resolution by the operating system, from the root: every component is looked up in
  a directory, \<^verbatim>\<open>..\<close> goes to the parent (the root is its own parent). The last
  component need not exist. The errors are \<^verbatim>\<open>ENOENT\<close> and \<^verbatim>\<open>ENOTDIR\<close>.
\<close>

fun walk :: "filesystem \<Rightarrow> string list \<Rightarrow> string list \<Rightarrow> string + string list" where
  "walk fs cur [] = Inr cur"
| "walk fs cur (c # cs) =
     (if \<not> is_dir fs cur
      then (case fs cur of
              Some (File b) \<Rightarrow> Inl ''[Errno 20] Not a directory''
            | _ \<Rightarrow> Inl ''[Errno 2] No such file or directory'')
      else if c = ''..'' then walk fs (butlast cur) cs
      else walk fs (cur @ [c]) cs)"

text \<open>
  Lines 136-137, \<^verbatim>\<open>with open(filepath, "wb") as f: shutil.copyfileobj(file, f)\<close>: the
  file is created or truncated and receives the uploaded bytes; opening fails when the
  path cannot be resolved or names a directory, and then nothing is written.
\<close>

definition open_wb_copy :: "string \<Rightarrow> string \<Rightarrow> filesystem \<Rightarrow> (exn + unit) \<times> filesystem" where
  "open_wb_copy filepath bytes fs =
     (case walk fs [] (parts filepath) of
        Inl msg \<Rightarrow> (Inl (Exception (msg @ '': '' @ [CHR 0x27] @ filepath @ [CHR 0x27])), fs)
      | Inr p \<Rightarrow>
          if is_dir fs p
          then (Inl (Exception (''[Errno 21] Is a directory: ''
                                 @ [CHR 0x27] @ filepath @ [CHR 0x27])), fs)
          else (Inr (), fs(p \<mapsto> File bytes)))"

text \<open>
  \<^verbatim>\<open>tempfile.TemporaryDirectory()\<close>. \<open>tmpdirname\<close> is the name \<^verbatim>\<open>mkdtemp\<close> chooses: an
  absolute, normalised path (\<^verbatim>\<open>mkdtemp\<close> returns \<^verbatim>\<open>os.path.abspath\<close> of it), so its
  components are its resolved form. Creating it fails when its parent is not a directory
  or the name is taken. Leaving the \<^verbatim>\<open>with\<close> block removes the directory with
  everything below it (\<^verbatim>\<open>shutil.rmtree\<close>), whether the block returned or raised.
\<close>

definition mkdtemp :: "string \<Rightarrow> filesystem \<Rightarrow> (exn + unit) \<times> filesystem" where
  "mkdtemp tmpdirname fs =
     (let d = parts tmpdirname
      in if d = [] \<or> \<not> is_dir fs (butlast d) \<or> fs d \<noteq> None
         then (Inl (Exception ''No usable temporary directory name found''), fs)
         else (Inr (), fs(d \<mapsto> Dir)))"

definition is_under :: "string list \<Rightarrow> string list \<Rightarrow> bool" where
  "is_under d p = (take (length d) p = d)"

definition rmtree :: "string \<Rightarrow> filesystem \<Rightarrow> filesystem" where
  "rmtree tmpdirname fs = (\<lambda>p. if is_under (parts tmpdirname) p then None else fs p)"

definition with_TemporaryDirectory ::
  "string \<Rightarrow> (filesystem \<Rightarrow> (exn + 'a) \<times> filesystem) \<Rightarrow> filesystem
     \<Rightarrow> (exn + 'a) \<times> filesystem" where
  "with_TemporaryDirectory tmpdirname body fs =
     (case mkdtemp tmpdirname fs of
        (Inl e, fs1) \<Rightarrow> (Inl e, fs1)
      | (Inr u, fs1) \<Rightarrow>
          (case body fs1 of (r, fs2) \<Rightarrow> (r, rmtree tmpdirname fs2)))"

subsection \<open>The request handler \<^verbatim>\<open>predict_ecg_file\<close>\<close>

text \<open>\<^verbatim>\<open>str(e)\<close>; for an \<^verbatim>\<open>HTTPException\<close> it is \<^verbatim>\<open>f"{status_code}: {detail}"\<close>.\<close>

definition str_exn :: "exn \<Rightarrow> string" where
  "str_exn e =
     (case e of
        Exception msg \<Rightarrow> msg
      | HTTPException sc d \<Rightarrow> str_int (int sc) @ '': '' @ d)"

text \<open>
  The dictionary returned by the external \<^verbatim>\<open>predict\<close>, read at the keys
  \<^verbatim>\<open>predicted_label\<close>, \<^verbatim>\<open>predicted_class_index\<close> and, when present,
  \<^verbatim>\<open>confidence\<close>.
\<close>

record PredictResult =
  predicted_label :: string
  predicted_class_index :: int
  confidence :: "real option"

text \<open>
  The response models of lines 62-73, with their fields in the declared order:
  \<^verbatim>\<open>PredictionResponse(success, predicted_class, predicted_class_index, confidence,
  ecg_stats, message)\<close> and \<^verbatim>\<open>ErrorResponse(success, error, detail)\<close>.
\<close>

datatype PredictionResponse = PredictionResponse bool string int real EcgStats string

datatype ErrorResponse = ErrorResponse bool string string

text \<open>
  The loop of lines 133-139: every upload is written to \<^verbatim>\<open>Path(tmpdirname) / filename\<close>
  and the path is appended to \<^verbatim>\<open>filenames\<close>. A failing write raises; the files written
  before it stay.
\<close>

fun save_uploaded ::
  "string \<Rightarrow> UploadFile list \<Rightarrow> string list \<Rightarrow> filesystem
     \<Rightarrow> (exn + string list) \<times> filesystem" where
  "save_uploaded tmpdirname [] filenames fs = (Inr filenames, fs)"
| "save_uploaded tmpdirname (uploaded_file # rest) filenames fs =
     (let filepath = path_join tmpdirname (filename uploaded_file)
      in case open_wb_copy filepath (file_content uploaded_file) fs of
           (Inl e, fs1) \<Rightarrow> (Inl e, fs1)
         | (Inr u, fs1) \<Rightarrow> save_uploaded tmpdirname rest (filenames @ [filepath]) fs1)"

text \<open>Lines 142-143: the record path from the first saved file.\<close>

definition record_path_of :: "string \<Rightarrow> string list \<Rightarrow> exn + string" where
  "record_path_of tmpdirname filenames =
     (case filenames of
        [] \<Rightarrow> Inl (Exception ''list index out of range'')
      | first # others \<Rightarrow> Inr (path_join tmpdirname (stem first)))"

text \<open>
  Lines 145-181, from reading to the response. The two external collaborators are
  parameters: \<open>rdrecord\<close> reads the staged record from the file system and returns
  \<^verbatim>\<open>p_signal\<close> (samples by leads) or raises; \<open>predict\<close> (with the loaded model) takes
  the batch tensor, built by \<^verbatim>\<open>unsqueeze(0)\<close>, and returns its result or raises. Any
  exception of the reading step becomes a 400. Logging is not modelled.
\<close>

definition read_and_predict ::
  "(filesystem \<Rightarrow> string \<Rightarrow> exn + ndarray) \<Rightarrow> (ndarray list \<Rightarrow> exn + PredictResult)
     \<Rightarrow> string \<Rightarrow> filesystem \<Rightarrow> exn + PredictionResponse" where
  "read_and_predict rdrecord predict record_path fs =
     (case rdrecord fs record_path of
        Inl e \<Rightarrow> Inl (HTTPException 400 (''Failed to read ECG files: '' @ str_exn e))
      | Inr p_signal \<Rightarrow>
          (let ecg_data = transpose p_signal;
               ecg_normalized = normalize ecg_data;
               ecg_tensor = [ecg_normalized]
           in case predict ecg_tensor of
                Inl e \<Rightarrow> Inl e
              | Inr result \<Rightarrow>
                  (case calculate_ecg_stats ecg_data of
                     Inl e \<Rightarrow> Inl e
                   | Inr stats \<Rightarrow>
                       Inr (PredictionResponse True
                             (predicted_label result)
                             (predicted_class_index result)
                             (case confidence result of None \<Rightarrow> 0 | Some c \<Rightarrow> c)
                             stats
                             ''ECG classification completed successfully''))))"

text \<open>The body of the \<^verbatim>\<open>with\<close> block, lines 130-181.\<close>

definition staged_body ::
  "(filesystem \<Rightarrow> string \<Rightarrow> exn + ndarray) \<Rightarrow> (ndarray list \<Rightarrow> exn + PredictResult)
     \<Rightarrow> string \<Rightarrow> UploadFile list \<Rightarrow> filesystem
     \<Rightarrow> (exn + PredictionResponse) \<times> filesystem" where
  "staged_body rdrecord predict tmpdirname files fs =
     (case save_uploaded tmpdirname files [] fs of
        (Inl e, fs1) \<Rightarrow> (Inl e, fs1)
      | (Inr filenames, fs1) \<Rightarrow>
          (case record_path_of tmpdirname filenames of
             Inl e \<Rightarrow> (Inl e, fs1)
           | Inr record_path \<Rightarrow> (read_and_predict rdrecord predict record_path fs1, fs1)))"

text \<open>
  The \<^verbatim>\<open>except\<close> clauses of lines 183-190: an \<^verbatim>\<open>HTTPException\<close> is raised again as
  it is, any other exception becomes an \<^verbatim>\<open>HTTPException\<close> with status 500 whose
  detail is \<^verbatim>\<open>f"Internal server error: {str(e)}"\<close>.
\<close>

definition except_clauses :: "exn + PredictionResponse \<Rightarrow> exn + PredictionResponse" where
  "except_clauses r =
     (case r of
        Inl (HTTPException sc d) \<Rightarrow> Inl (HTTPException sc d)
      | Inl (Exception msg) \<Rightarrow> Inl (HTTPException 500 (''Internal server error: '' @ msg))
      | Inr response \<Rightarrow> Inr response)"

text \<open>The route, lines 121-190: validation, then the staged pipeline, inside the \<^verbatim>\<open>try\<close>.\<close>

definition predict_ecg_file ::
  "(filesystem \<Rightarrow> string \<Rightarrow> exn + ndarray) \<Rightarrow> (ndarray list \<Rightarrow> exn + PredictResult)
     \<Rightarrow> string \<Rightarrow> UploadFile list \<Rightarrow> filesystem
     \<Rightarrow> (exn + PredictionResponse) \<times> filesystem" where
  "predict_ecg_file rdrecord predict tmpdirname files fs =
     (case (case validate_files files of
              Inl e \<Rightarrow> (Inl e, fs)
            | Inr u \<Rightarrow>
                with_TemporaryDirectory tmpdirname
                  (staged_body rdrecord predict tmpdirname files) fs) of
        (r, fs1) \<Rightarrow> (except_clauses r, fs1))"

subsection \<open>Responses\<close>

text \<open>
  A JSON body is a list of keys with their values. FastAPI answers an
  \<^verbatim>\<open>HTTPException\<close> raised by a route with its status code and the body
  \<^verbatim>\<open>{"detail": exc.detail}\<close> (its built-in handler; main.py registers none of its own
  for \<^verbatim>\<open>HTTPException\<close>). The handler registered for \<^verbatim>\<open>Exception\<close> in lines 192-203,
  \<^verbatim>\<open>global_exception_handler\<close>, receives the exceptions that leave a route and are not
  \<^verbatim>\<open>HTTPException\<close>s.
\<close>

datatype json = JBool bool | JInt int | JFloat real | JStr string | JObj "(string \<times> json) list"

record Response =
  status_code :: nat
  content :: "(string \<times> json) list"

definition EcgStats_dict :: "EcgStats \<Rightarrow> (string \<times> json) list" where
  "EcgStats_dict s =
     [(''num_leads'', JInt (int (num_leads s))),
      (''signal_length'', JInt (int (signal_length s))),
      (''mean_amplitude'', JFloat (mean_amplitude s)),
      (''std_amplitude'', JFloat (std_amplitude s)),
      (''max_amplitude'', JFloat (max_amplitude s)),
      (''min_amplitude'', JFloat (min_amplitude s))]"

fun PredictionResponse_dict :: "PredictionResponse \<Rightarrow> (string \<times> json) list" where
  "PredictionResponse_dict (PredictionResponse success predicted_class class_index conf stats message) =
     [(''success'', JBool success),
      (''predicted_class'', JStr predicted_class),
      (''predicted_class_index'', JInt class_index),
      (''confidence'', JFloat conf),
      (''ecg_stats'', JObj (EcgStats_dict stats)),
      (''message'', JStr message)]"

fun ErrorResponse_dict :: "ErrorResponse \<Rightarrow> (string \<times> json) list" where
  "ErrorResponse_dict (ErrorResponse success error detail) =
     [(''success'', JBool success), (''error'', JStr error), (''detail'', JStr detail)]"

definition http_exception_handler :: "nat \<Rightarrow> string \<Rightarrow> Response" where
  "http_exception_handler sc d = \<lparr>status_code = sc, content = [(''detail'', JStr d)]\<rparr>"

definition global_exception_handler :: "exn \<Rightarrow> Response" where
  "global_exception_handler exc =
     \<lparr>status_code = 500,
      content = ErrorResponse_dict
                  (ErrorResponse False ''Internal server error''
                     ''An unexpected error occurred'')\<rparr>"

text \<open>
  One request to \<^verbatim>\<open>POST /predict_file\<close>: the route's result or exception, turned into
  the response the client receives.
\<close>

definition post_predict_file ::
  "(filesystem \<Rightarrow> string \<Rightarrow> exn + ndarray) \<Rightarrow> (ndarray list \<Rightarrow> exn + PredictResult)
     \<Rightarrow> string \<Rightarrow> UploadFile list \<Rightarrow> filesystem \<Rightarrow> Response \<times> filesystem" where
  "post_predict_file rdrecord predict tmpdirname files fs =
     (case predict_ecg_file rdrecord predict tmpdirname files fs of
        (Inr response, fs1) \<Rightarrow>
          (\<lparr>status_code = 200, content = PredictionResponse_dict response\<rparr>, fs1)
      | (Inl (HTTPException sc d), fs1) \<Rightarrow> (http_exception_handler sc d, fs1)
      | (Inl (Exception msg), fs1) \<Rightarrow> (global_exception_handler (Exception msg), fs1))"

subsection \<open>An example request\<close>

text \<open>
  A file system with the directory \<^verbatim>\<open>/tmp\<close>, an upload of a header and a data file,
  a reader that returns two samples of two leads when both staged files are in place, a
  reader that always raises, and a model that always raises.
\<close>

definition example_fs :: filesystem where
  "example_fs = (\<lambda>p. if p = [''tmp''] then Some Dir else None)"

definition example_files :: "UploadFile list" where
  "example_files =
     [\<lparr>filename = ''rec100.hea'', file_content = ''header'', size_attr = Some 6\<rparr>,
      \<lparr>filename = ''rec100.dat'', file_content = ''data'', size_attr = Some 4\<rparr>]"

definition example_rdrecord :: "filesystem \<Rightarrow> string \<Rightarrow> exn + ndarray" where
  "example_rdrecord fs record_path =
     (if record_path = ''/tmp/tmpab12/rec100''
         \<and> fs [''tmp'', ''tmpab12'', ''rec100.hea''] = Some (File ''header'')
         \<and> fs [''tmp'', ''tmpab12'', ''rec100.dat''] = Some (File ''data'')
      then Inr [[0, 1], [2, 1]]
      else Inl (Exception ''rec100.hea: bad header''))"

definition failing_rdrecord :: "filesystem \<Rightarrow> string \<Rightarrow> exn + ndarray" where
  "failing_rdrecord fs record_path = Inl (Exception ''invalid header line'')"

definition failing_predict :: "ndarray list \<Rightarrow> exn + PredictResult" where
  "failing_predict ecg_tensor = Inl (Exception ''boom'')"

section \<open>Properties of the file validator\<close>

lemma extension_rejected_iff:
  "extension_rejected files \<longleftrightarrow> (\<forall>f \<in> set files. file_extension f \<notin> ALLOWED_EXTENSIONS)"
  by (auto simp: extension_rejected_def extensions_of_def Let_def ALLOWED_EXTENSIONS_def)

lemma check_sizes_status:
  "check_sizes files = Inl e \<Longrightarrow> \<exists>d. e = HTTPException 413 d"
  by (induction files) (auto split: if_splits)

lemma check_sizes_find:
  "check_sizes files =
     (case find too_large files of
        None \<Rightarrow> Inr ()
      | Some f \<Rightarrow> Inl (HTTPException 413 (too_large_detail f)))"
  by (induction files) auto

lemma too_large_iff:
  "too_large f \<longleftrightarrow> (\<exists>n. size_attr f = Some n \<and> MAX_FILE_SIZE < n)"
  by (auto simp: too_large_def MAX_FILE_SIZE_def split: option.splits)

lemma too_large_detail_eq:
  "too_large_detail f = ''File '' @ filename f @ '' is too large. Max size: 10MB''"
proof -
  have "str_int (MAX_FILE_SIZE div (1024 * 1024)) = ''10''"
    by code_simp
  then show ?thesis
    by (simp add: too_large_detail_def)
qed

text \<open>
  Claim C4. The validator raises the extension error exactly when the upload list is
  non-empty and no file's (lower-cased) extension is one of \<^verbatim>\<open>.dat\<close>, \<^verbatim>\<open>.hea\<close>; as
  soon as one file has one of the two extensions, the extension test passes and the
  outcome is that of the size loop alone.
\<close>

theorem validate_files_extension_iff:
  "(validate_files files =
      Inl (HTTPException 400
            (''Please upload files with extensions: '' @ ALLOWED_EXTENSIONS_joined)))
     = (files \<noteq> [] \<and> (\<forall>f \<in> set files. file_extension f \<notin> ALLOWED_EXTENSIONS))
   \<and> ((\<exists>f \<in> set files. file_extension f \<in> ALLOWED_EXTENSIONS)
        \<longrightarrow> \<not> extension_rejected files \<and> validate_files files = check_sizes files)"
proof -
  have neq: "check_sizes files
      \<noteq> Inl (HTTPException 400
              (''Please upload files with extensions: '' @ ALLOWED_EXTENSIONS_joined))"
    using check_sizes_status [of files] by auto
  have nonempty: "(\<exists>f \<in> set files. file_extension f \<in> ALLOWED_EXTENSIONS) \<Longrightarrow> files \<noteq> []"
    by auto
  show ?thesis
    using neq nonempty
    by (auto simp: validate_files_def extension_rejected_iff ALLOWED_EXTENSIONS_joined_def)
qed

theorem validate_files_extension_iff_witness:
  "file_extension \<lparr>filename = ''rec100.hea'', file_content = [], size_attr = None\<rparr>
     \<in> ALLOWED_EXTENSIONS
   \<and> validate_files [\<lparr>filename = ''rec100.hea'', file_content = [], size_attr = None\<rparr>]
       = Inr ()
   \<and> validate_files [\<lparr>filename = ''notes.txt'', file_content = [], size_attr = None\<rparr>]
       = Inl (HTTPException 400 ''Please upload files with extensions: .dat, .hea'')"
proof -
  let ?hea = "\<lparr>filename = ''rec100.hea'', file_content = [], size_attr = None\<rparr>"
  let ?txt = "\<lparr>filename = ''notes.txt'', file_content = [], size_attr = None\<rparr>"
  have e1: "file_extension ?hea = ''.hea''" by code_simp
  have e2: "file_extension ?txt = ''.txt''" by code_simp
  have a: "validate_files [?hea] = check_sizes [?hea]"
    using validate_files_extension_iff [of "[?hea]"] e1
    by (simp add: ALLOWED_EXTENSIONS_def)
  have b: "validate_files [?txt]
      = Inl (HTTPException 400
              (''Please upload files with extensions: '' @ ALLOWED_EXTENSIONS_joined))"
    using validate_files_extension_iff [of "[?txt]"] e2
    by (simp add: ALLOWED_EXTENSIONS_def)
  show ?thesis
    using a b e1 by (simp add: ALLOWED_EXTENSIONS_def ALLOWED_EXTENSIONS_joined_def too_large_def)
qed

text \<open>
  Claim C7, as stated: every upload list with a file whose declared size exceeds the cap
  fails with a 413 naming that file. It fails for a single 15 MiB file named
  \<^verbatim>\<open>big.txt\<close>: the extension test of lines 85-90 comes first and answers 400.
\<close>

theorem oversized_not_always_413_counterexample:
  "size_attr \<lparr>filename = ''big.txt'', file_content = [], size_attr = Some 15728640\<rparr>
     = Some 15728640
   \<and> MAX_FILE_SIZE < 15728640
   \<and> validate_files [\<lparr>filename = ''big.txt'', file_content = [], size_attr = Some 15728640\<rparr>]
       = Inl (HTTPException 400 ''Please upload files with extensions: .dat, .hea'')"
  by code_simp

text \<open>
  Claim C7, amended. When at least one file has an allowed extension (so that the
  extension test passes) and some file's declared size exceeds the cap, validation fails
  with a 413 whose detail names the first such file in upload order.
\<close>

theorem validate_files_oversized_413:
  assumes "\<exists>f \<in> set files. file_extension f \<in> ALLOWED_EXTENSIONS"
    and "\<exists>f \<in> set files. \<exists>n. size_attr f = Some n \<and> MAX_FILE_SIZE < n"
  shows "\<exists>f n. find too_large files = Some f \<and> f \<in> set files
           \<and> size_attr f = Some n \<and> MAX_FILE_SIZE < n
           \<and> validate_files files =
               Inl (HTTPException 413
                     (''File '' @ filename f @ '' is too large. Max size: 10MB''))"
proof -
  from assms(2) obtain g where g: "g \<in> set files" "too_large g"
    by (auto simp: too_large_iff)
  then obtain f where f: "find too_large files = Some f"
    by (cases "find too_large files") (auto simp: find_None_iff)
  then have tl: "too_large f" and mem: "f \<in> set files"
    by (auto simp: find_Some_iff)
  from tl obtain n where n: "size_attr f = Some n" "MAX_FILE_SIZE < n"
    by (auto simp: too_large_iff)
  have "files \<noteq> []" using mem by auto
  moreover have "\<not> extension_rejected files"
    using assms(1) by (simp add: extension_rejected_iff)
  ultimately have "validate_files files = check_sizes files"
    by (simp add: validate_files_def)
  then have "validate_files files = Inl (HTTPException 413 (too_large_detail f))"
    by (simp add: check_sizes_find f)
  then show ?thesis
    using f mem n by (auto simp: too_large_detail_eq)
qed

theorem validate_files_oversized_413_witness:
  "validate_files
     [\<lparr>filename = ''rec100.hea'', file_content = [], size_attr = Some 120\<rparr>,
      \<lparr>filename = ''rec100.dat'', file_content = [], size_attr = Some 15728640\<rparr>]
   = Inl (HTTPException 413 ''File rec100.dat is too large. Max size: 10MB'')"
proof -
  let ?hea = "\<lparr>filename = ''rec100.hea'', file_content = [], size_attr = Some 120\<rparr>"
  let ?dat = "\<lparr>filename = ''rec100.dat'', file_content = [], size_attr = Some 15728640\<rparr>"
  have e: "file_extension ?hea = ''.hea''" by code_simp
  have h1: "\<exists>f \<in> set [?hea, ?dat]. file_extension f \<in> ALLOWED_EXTENSIONS"
    using e by (simp add: ALLOWED_EXTENSIONS_def)
  have h2: "\<exists>f \<in> set [?hea, ?dat]. \<exists>n. size_attr f = Some n \<and> MAX_FILE_SIZE < n"
    by (simp add: MAX_FILE_SIZE_def)
  have fd: "find too_large [?hea, ?dat] = Some ?dat"
    by (simp add: too_large_def MAX_FILE_SIZE_def)
  show ?thesis
    using validate_files_oversized_413 [OF h1 h2] fd by simp
qed

text \<open>
  Claim C10. A file whose declared size is absent or zero is skipped by the size loop,
  whatever its content: the loop's outcome is that of the files before and after it, and
  such a file alone, with an allowed extension, passes validation however long its
  content is.
\<close>

theorem size_check_skipped:
  assumes "size_attr f = None \<or> size_attr f = Some 0"
  shows "\<not> too_large (f\<lparr>file_content := c\<rparr>)
         \<and> check_sizes (pre @ f\<lparr>file_content := c\<rparr> # post) =
             (case check_sizes pre of Inl e \<Rightarrow> Inl e | Inr u \<Rightarrow> check_sizes post)
         \<and> (file_extension f \<in> ALLOWED_EXTENSIONS
              \<longrightarrow> validate_files [f\<lparr>file_content := c\<rparr>] = Inr ())"
proof -
  have skip: "\<not> too_large (f\<lparr>file_content := c\<rparr>)"
    using assms by (auto simp: too_large_def)
  have loop: "check_sizes (pre @ f\<lparr>file_content := c\<rparr> # post) =
      (case check_sizes pre of Inl e \<Rightarrow> Inl e | Inr u \<Rightarrow> check_sizes post)"
    using skip by (induction pre) auto
  have ext: "file_extension (f\<lparr>file_content := c\<rparr>) = file_extension f"
    by (simp add: file_extension_def)
  have whole: "file_extension f \<in> ALLOWED_EXTENSIONS
      \<longrightarrow> validate_files [f\<lparr>file_content := c\<rparr>] = Inr ()"
    using skip by (simp add: validate_files_def extension_rejected_iff ext)
  show ?thesis using skip loop whole by blast
qed

theorem size_check_skipped_witness:
  "int (length (replicate 20000000 CHR ''x'')) > MAX_FILE_SIZE
   \<and> validate_files
       [\<lparr>filename = ''rec100.dat'', file_content = replicate 20000000 CHR ''x'',
          size_attr = None\<rparr>] = Inr ()
   \<and> validate_files
       [\<lparr>filename = ''rec100.dat'', file_content = replicate 20000000 CHR ''x'',
          size_attr = Some 0\<rparr>] = Inr ()"
proof -
  let ?f = "\<lparr>filename = ''rec100.dat'', file_content = [], size_attr = None\<rparr>"
  let ?g = "\<lparr>filename = ''rec100.dat'', file_content = [], size_attr = Some 0\<rparr>"
  have e: "lower (suffix ''rec100.dat'') = ''.dat''" by code_simp
  have ef: "file_extension ?f \<in> ALLOWED_EXTENSIONS"
    using e by (simp add: file_extension_def ALLOWED_EXTENSIONS_def)
  have eg: "file_extension ?g \<in> ALLOWED_EXTENSIONS"
    using e by (simp add: file_extension_def ALLOWED_EXTENSIONS_def)
  have a: "validate_files [?f\<lparr>file_content := replicate 20000000 CHR ''x''\<rparr>] = Inr ()"
    using size_check_skipped [of ?f "replicate 20000000 CHR ''x''"] ef by simp
  have b: "validate_files [?g\<lparr>file_content := replicate 20000000 CHR ''x''\<rparr>] = Inr ()"
    using size_check_skipped [of ?g "replicate 20000000 CHR ''x''"] eg by simp
  show ?thesis using a b by (simp add: MAX_FILE_SIZE_def)
qed

section \<open>Properties of the normalizer and of the statistics\<close>

lemma map2_replicate: "length xs = n \<Longrightarrow> map2 f xs (replicate n c) = map (\<lambda>x. f x c) xs"
  by (induction xs arbitrary: n) auto

lemma map2_map_replicate:
  "length xs = n \<Longrightarrow> map2 f (map g xs) (replicate n c) = map (\<lambda>x. f (g x) c) xs"
  by (induction xs arbitrary: n) auto


lemma map2_map2_same:
  "map2 f (map2 g xs (map a xs)) (map b xs) = map (\<lambda>x. f (g x (a x)) (b x)) xs"
  by (induction xs) auto

lemma normalize_rows:
  assumes "is_ndarray W"
  shows "normalize W = map normalize_row W"
proof -
  let ?n = "snd (shape W)"
  have len: "\<And>r. r \<in> set W \<Longrightarrow> length r = ?n" using assms by (simp add: is_ndarray_def)
  have "normalize W = map2 (map2 (/)) (map2 (map2 (-)) W (map (\<lambda>r. replicate ?n (np_mean r)) W))
          (map (\<lambda>r. replicate ?n (np_std r + 1 / 10 ^ 8)) W)"
    by (simp add: normalize_def Let_def elementwise_def broadcast_to_def mean_axis1_keepdims_def
        std_axis1_keepdims_def add_scalar_def comp_def)
  also have "\<dots> = map (\<lambda>r. map2 (/) (map2 (-) r (replicate ?n (np_mean r))) (replicate ?n (np_std r + 1 / 10 ^ 8))) W"
    by (rule map2_map2_same)
  also have "\<dots> = map normalize_row W"
  proof (rule map_cong[OF refl])
    fix r assume "r \<in> set W"
    then have l: "length r = ?n" by (rule len)
    have a: "map2 (-) r (replicate ?n (np_mean r)) = map (\<lambda>x. x - np_mean r) r"
      using l by (rule map2_replicate)
    have b: "map2 (/) (map (\<lambda>x. x - np_mean r) r) (replicate ?n (np_std r + 1 / 10 ^ 8)) = map (\<lambda>x. (x - np_mean r) / (np_std r + 1 / 10 ^ 8)) r"
      by (rule map2_map_replicate [of r ?n "(/)" "\<lambda>x. x - np_mean r" "np_std r + 1 / 10 ^ 8", OF l])
    show "map2 (/) (map2 (-) r (replicate ?n (np_mean r))) (replicate ?n (np_std r + 1 / 10 ^ 8)) = normalize_row r"
      unfolding a b normalize_row_def by (rule refl)
  qed
  finally show ?thesis .
qed


lemma np_std_nonneg: "0 \<le> np_std xs"
  by (auto simp: np_std_def np_mean_def intro!: divide_nonneg_nonneg sum_list_nonneg)





lemma shape_normalize:
  assumes "is_ndarray W"
  shows "shape (normalize W) = shape W"
  using assms by (cases W) (simp_all add: normalize_rows shape_def normalize_row_def)

text \<open>
  Claim C8. The normalizer's output has the shape of its input, and its entry at row
  \<open>i\<close>, column \<open>j\<close> is the input's entry minus the mean of row \<open>i\<close>, divided by the
  standard deviation of row \<open>i\<close> plus the constant \<open>1e-8\<close>.
\<close>

theorem normalize_entries:
  assumes "is_ndarray W"
  shows "shape (normalize W) = shape W
         \<and> is_ndarray (normalize W)
         \<and> (\<forall>i < length W. \<forall>j < length (W ! i).
               normalize W ! i ! j
                 = (W ! i ! j - np_mean (W ! i)) / (np_std (W ! i) + 1 / 10 ^ 8))"
proof -
  have sh: "shape (normalize W) = shape W" using assms by (rule shape_normalize)
  have nd: "is_ndarray (normalize W)"
    using assms unfolding is_ndarray_def sh
    by (auto simp: normalize_rows [OF assms] normalize_row_def)
  have en: "\<forall>i < length W. \<forall>j < length (W ! i).
               normalize W ! i ! j
                 = (W ! i ! j - np_mean (W ! i)) / (np_std (W ! i) + 1 / 10 ^ 8)"
    by (simp add: normalize_rows [OF assms] normalize_row_def)
  show ?thesis using sh nd en by blast
qed

lemma np_std_02: "np_std [0, 2] = 1"
  by (simp add: np_std_def np_mean_def)

theorem normalize_entries_witness:
  "is_ndarray [[0, 2], [1, 1]]
   \<and> shape (normalize [[0, 2], [1, 1]]) = (2, 2)
   \<and> normalize [[0, 2], [1, 1]] ! 0 ! 1 = (2 - 1) / (1 + 1 / 10 ^ 8)
   \<and> normalize [[0, 2], [1, 1]] ! 1 ! 0 = 0"
proof -
  have nd: "is_ndarray [[0, 2], [1, 1]]"
    by (simp add: is_ndarray_def shape_def)
  have m: "np_mean [0, 2] = 1" "np_mean [1, 1] = 1"
    by (simp_all add: np_mean_def)
  show ?thesis
    using normalize_entries [OF nd] nd m np_std_02
    by (simp add: shape_def nth_Cons')
qed



lemma floor_log2_binade:
  assumes "2 powi k \<le> \<bar>y\<bar>" and "\<bar>y\<bar> < 2 powi (k + 1)"
  shows "\<lfloor>log 2 \<bar>y\<bar>\<rfloor> = k"
proof -
  have pos: "0 < \<bar>y\<bar>"
    using assms(1) by (smt (verit) zero_less_power_int)
  have a: "(2::real) powr (of_int k) = 2 powi k"
    by (rule powr_real_of_int') simp_all
  have b: "(2::real) powr (of_int (k + 1)) = 2 powi (k + 1)"
    by (rule powr_real_of_int') simp_all
  have "(2::real) powr (of_int k) \<le> \<bar>y\<bar> \<and> \<bar>y\<bar> < 2 powr (of_int k + 1)"
    using assms a b by (simp add: add.commute)
  then show ?thesis
    using pos floor_log_eq_powr_iff [of "\<bar>y\<bar>" 2 k] by simp
qed

lemma f64_binade:
  assumes "2 powi k \<le> \<bar>y\<bar>" and "\<bar>y\<bar> < 2 powi (k + 1)"
  shows "f64 y = of_int (round_half_even (y / 2 powi (k - 52))) * 2 powi (k - 52)"
proof -
  have "y \<noteq> 0"
    using assms(1) by (smt (verit) zero_less_power_int)
  then show ?thesis
    using floor_log2_binade [OF assms] by (simp add: f64_def Let_def)
qed

lemma f64_tenth: "f64 (1 / 10) = 3602879701896397 / 2 ^ 55"
  by (subst f64_binade [where k = "- 4"]) (simp_all add: round_half_even_def power_int_minus)

lemma f64_tenth_twice: "f64 (3602879701896397 / 2 ^ 55 + 3602879701896397 / 2 ^ 55) = 3602879701896397 / 2 ^ 54"
  by (subst f64_binade [where k = "- 3"]) (simp_all add: round_half_even_def power_int_minus)

lemma f64_tenth_thrice: "f64 (3602879701896397 / 2 ^ 54 + 3602879701896397 / 2 ^ 55) = 5404319552844596 / 2 ^ 54"
  by (subst f64_binade [where k = "- 2"]) (simp_all add: round_half_even_def power_int_minus)

lemma f64_third_of_sum: "f64 (5404319552844596 / 2 ^ 54 / 3) = 7205759403792795 / 2 ^ 56"
  by (subst f64_binade [where k = "- 4"]) (simp_all add: round_half_even_def power_int_minus)


lemma np_mean_f64_three_tenths: "np_mean_f64 [3602879701896397 / 2 ^ 55, 3602879701896397 / 2 ^ 55, 3602879701896397 / 2 ^ 55]
   = 7205759403792795 / 2 ^ 56"
proof -
  have z: "f64 (3602879701896397 / 2 ^ 55) = 3602879701896397 / 2 ^ 55"
    by (subst f64_binade [where k = "- 4"]) (simp_all add: round_half_even_def power_int_minus)
  have "np_sum_f64 [3602879701896397 / 2 ^ 55, 3602879701896397 / 2 ^ 55, 3602879701896397 / 2 ^ 55]
     = f64 (f64 (f64 (3602879701896397 / 2 ^ 55) + 3602879701896397 / 2 ^ 55) + 3602879701896397 / 2 ^ 55)"
    by (simp add: np_sum_f64_def)
  also have "\<dots> = 5404319552844596 / 2 ^ 54"
    unfolding z f64_tenth_twice f64_tenth_thrice ..
  finally have s: "np_sum_f64 [3602879701896397 / 2 ^ 55, 3602879701896397 / 2 ^ 55, 3602879701896397 / 2 ^ 55]
     = 5404319552844596 / 2 ^ 54" .
  have "np_mean_f64 [3602879701896397 / 2 ^ 55, 3602879701896397 / 2 ^ 55, 3602879701896397 / 2 ^ 55]
      = f64 (5404319552844596 / 2 ^ 54 / 3)"
    unfolding np_mean_f64_def s by simp
  then show ?thesis unfolding f64_third_of_sum .
qed

lemma f64_dev: "f64 (3602879701896397 / 2 ^ 55 - 7205759403792795 / 2 ^ 56) = - 1 / 2 ^ 56"
  by (subst f64_binade [where k = "- 56"]) (simp_all add: round_half_even_def power_int_minus)

lemma f64_dev_square: "f64 ((- 1 / 2 ^ 56) * (- 1 / 2 ^ 56)) = 1 / 2 ^ 112"
  by (subst f64_binade [where k = "- 112"]) (simp_all add: round_half_even_def power_int_minus)

lemma f64_sq_first: "f64 (0 + 1 / 2 ^ 112) = 1 / 2 ^ 112"
  by (subst f64_binade [where k = "- 112"]) (simp_all add: round_half_even_def power_int_minus)

lemma f64_sq_second: "f64 (1 / 2 ^ 112 + 1 / 2 ^ 112) = 1 / 2 ^ 111"
  by (subst f64_binade [where k = "- 111"]) (simp_all add: round_half_even_def power_int_minus)

lemma f64_sq_third: "f64 (1 / 2 ^ 111 + 1 / 2 ^ 112) = 3 / 2 ^ 112"
  by (subst f64_binade [where k = "- 111"]) (simp_all add: round_half_even_def power_int_minus)

lemma f64_sq_mean: "f64 (3 / 2 ^ 112 / 3) = 1 / 2 ^ 112"
  by (subst f64_binade [where k = "- 112"]) (simp_all add: round_half_even_def power_int_minus)

lemma f64_sq_root: "f64 (sqrt (1 / 2 ^ 112)) = 1 / 2 ^ 56"
proof -
  have sq: "sqrt (1 / 2 ^ 112) = (1 / 2 ^ 56 :: real)"
    by (rule real_sqrt_unique) (simp_all add: power2_eq_square)
  have "f64 (1 / 2 ^ 56) = 1 / 2 ^ 56"
    by (subst f64_binade [where k = "- 56"]) (simp_all add: round_half_even_def power_int_minus)
  then show ?thesis unfolding sq .
qed


lemma np_std_f64_three_tenths: "np_std_f64 [3602879701896397 / 2 ^ 55, 3602879701896397 / 2 ^ 55, 3602879701896397 / 2 ^ 55]
   = 1 / 2 ^ 56"
proof -
  have "np_sum_f64 [1 / 2 ^ 112, 1 / 2 ^ 112, 1 / 2 ^ 112]
      = f64 (f64 (f64 (0 + 1 / 2 ^ 112) + 1 / 2 ^ 112) + 1 / 2 ^ 112)"
    by (simp add: np_sum_f64_def)
  also have "\<dots> = 3 / 2 ^ 112"
    unfolding f64_sq_first f64_sq_second f64_sq_third ..
  finally have s: "np_sum_f64 [1 / 2 ^ 112, 1 / 2 ^ 112, 1 / 2 ^ 112] = 3 / 2 ^ 112" .
  have "np_std_f64 [3602879701896397 / 2 ^ 55, 3602879701896397 / 2 ^ 55, 3602879701896397 / 2 ^ 55]
      = f64 (sqrt (f64 (np_sum_f64 [1 / 2 ^ 112, 1 / 2 ^ 112, 1 / 2 ^ 112] / 3)))"
    unfolding np_std_f64_def Let_def np_mean_f64_three_tenths list.map f64_dev f64_dev_square by simp
  also have "\<dots> = 1 / 2 ^ 56"
    unfolding s f64_sq_mean f64_sq_root ..
  finally show ?thesis .
qed















text \<open>
  Claim C9, as stated: the returned scalars satisfy \<open>min \<le> mean \<le> max\<close>. The array with
  one lead and the three samples 0.1, 0.1, 0.1 (as \<^verbatim>\<open>float64\<close>:
  \<open>3602879701896397 / 2^55\<close>) has maximum 0.1, but the rounded sum is
  0.30000000000000004 and the rounded mean 0.10000000000000002, above the maximum.
\<close>

theorem float_mean_above_max_counterexample:
  "f64 (1 / 10) = 3602879701896397 / 2 ^ 55
   \<and> calculate_ecg_stats_f64
       [[3602879701896397 / 2 ^ 55, 3602879701896397 / 2 ^ 55, 3602879701896397 / 2 ^ 55]]
     = Inr \<lparr>num_leads = 1, signal_length = 3,
            mean_amplitude = 7205759403792795 / 2 ^ 56,
            std_amplitude = 1 / 2 ^ 56,
            max_amplitude = 3602879701896397 / 2 ^ 55,
            min_amplitude = 3602879701896397 / 2 ^ 55\<rparr>
   \<and> (3602879701896397 / 2 ^ 55 :: real) < 7205759403792795 / 2 ^ 56"
proof -
  have c: "concat [[3602879701896397 / 2 ^ 55, 3602879701896397 / 2 ^ 55, 3602879701896397 / 2 ^ 55 :: real]]
      = [3602879701896397 / 2 ^ 55, 3602879701896397 / 2 ^ 55, 3602879701896397 / 2 ^ 55]"
    by simp
  have st: "calculate_ecg_stats_f64
       [[3602879701896397 / 2 ^ 55, 3602879701896397 / 2 ^ 55, 3602879701896397 / 2 ^ 55]]
     = Inr \<lparr>num_leads = 1, signal_length = 3,
            mean_amplitude = 7205759403792795 / 2 ^ 56,
            std_amplitude = 1 / 2 ^ 56,
            max_amplitude = 3602879701896397 / 2 ^ 55,
            min_amplitude = 3602879701896397 / 2 ^ 55\<rparr>"
    unfolding calculate_ecg_stats_f64_def Let_def c np_mean_f64_three_tenths np_std_f64_three_tenths
    by (simp add: np_max_def np_min_def shape_def)
  show ?thesis
    using f64_tenth st by simp
qed

lemma sum_list_le_length_mult:
  "(\<And>x. x \<in> set xs \<Longrightarrow> x \<le> M) \<Longrightarrow> sum_list xs \<le> real (length xs) * (M::real)"
  by (induction xs) (auto simp: algebra_simps intro: add_mono)

lemma sum_list_ge_length_mult:
  "(\<And>x. x \<in> set xs \<Longrightarrow> m \<le> x) \<Longrightarrow> real (length xs) * (m::real) \<le> sum_list xs"
  by (induction xs) (auto simp: algebra_simps intro: add_mono)

lemma np_mean_le_Max:
  assumes "xs \<noteq> []"
  shows "np_mean xs \<le> Max (set xs)"
proof -
  have "sum_list xs \<le> real (length xs) * Max (set xs)"
    by (rule sum_list_le_length_mult) simp
  then show ?thesis using assms by (simp add: np_mean_def field_simps)
qed

lemma Min_le_np_mean:
  assumes "xs \<noteq> []"
  shows "Min (set xs) \<le> np_mean xs"
proof -
  have "real (length xs) * Min (set xs) \<le> sum_list xs"
    by (rule sum_list_ge_length_mult) simp
  then show ?thesis using assms by (simp add: np_mean_def field_simps)
qed

text \<open>
  Claim C9, amended. For an array with at least one entry the statistics are returned;
  \<open>num_leads\<close> and \<open>signal_length\<close> are the two dimensions, the four scalars are taken
  over all entries of the array, the standard deviation is not negative, and in exact
  arithmetic the minimum is at most the mean and the mean at most the maximum.
\<close>

theorem calculate_ecg_stats_exact:
  assumes "is_ndarray W" and "concat W \<noteq> []"
  shows "\<exists>s. calculate_ecg_stats W = Inr s
           \<and> num_leads s = length W
           \<and> (\<forall>r \<in> set W. signal_length s = length r)
           \<and> (num_leads s, signal_length s) = shape W
           \<and> mean_amplitude s = np_mean (concat W)
           \<and> std_amplitude s = np_std (concat W)
           \<and> max_amplitude s = Max (set (concat W))
           \<and> min_amplitude s = Min (set (concat W))
           \<and> min_amplitude s \<le> mean_amplitude s
           \<and> mean_amplitude s \<le> max_amplitude s
           \<and> 0 \<le> std_amplitude s"
  using assms np_mean_le_Max [OF assms(2)] Min_le_np_mean [OF assms(2)]
    np_std_nonneg [of "concat W"]
  by (simp add: calculate_ecg_stats_def np_max_def np_min_def Let_def is_ndarray_def shape_def)

theorem calculate_ecg_stats_exact_witness:
  "is_ndarray [[0, 2], [1, 1]] \<and> concat [[0, 2], [1, 1 :: real]] \<noteq> []
   \<and> calculate_ecg_stats [[0, 2], [1, 1]]
       = Inr \<lparr>num_leads = 2, signal_length = 2, mean_amplitude = 1,
              std_amplitude = sqrt (1 / 2), max_amplitude = 2, min_amplitude = 0\<rparr>"
proof -
  have nd: "is_ndarray [[0, 2], [1, 1]]"
    by (simp add: is_ndarray_def shape_def)
  have ne: "concat [[0, 2], [1, 1 :: real]] \<noteq> []" by simp
  have m: "np_mean [0, 2, 1, 1] = 1" by (simp add: np_mean_def)
  have sd: "np_std [0, 2, 1, 1] = sqrt (1 / 2)" by (simp add: np_std_def np_mean_def)
  from calculate_ecg_stats_exact [OF nd ne] obtain s where
    s: "calculate_ecg_stats [[0, 2], [1, 1]] = Inr s" "(num_leads s, signal_length s) = shape [[0, 2], [1, 1]]"
      "mean_amplitude s = np_mean (concat [[0, 2], [1, 1]])" "std_amplitude s = np_std (concat [[0, 2], [1, 1]])"
      "max_amplitude s = Max (set (concat [[0, 2], [1, 1]]))" "min_amplitude s = Min (set (concat [[0, 2], [1, 1]]))"
    by blast
  then have "s = \<lparr>num_leads = 2, signal_length = 2, mean_amplitude = 1,
              std_amplitude = sqrt (1 / 2), max_amplitude = 2, min_amplitude = 0\<rparr>"
    using m sd by (cases s) (simp add: shape_def)
  then show ?thesis using nd ne s(1) by simp
qed

section \<open>Properties of the request handler\<close>

lemma validate_files_error_cases:
  assumes "validate_files files = Inl e"
  shows "\<exists>sc d. e = HTTPException sc d \<and> (sc = 400 \<or> sc = 413)"
  using assms check_sizes_status [of files e]
  by (auto simp: validate_files_def split: if_splits)

lemma predict_ecg_file_invalid:
  assumes "validate_files files = Inl (HTTPException sc d)"
  shows "predict_ecg_file rdrecord predict tmpdirname files fs = (Inl (HTTPException sc d), fs)"
  using assms by (simp add: predict_ecg_file_def except_clauses_def)

lemma predict_ecg_file_staged:
  assumes "validate_files files = Inr ()"
    and "fst (mkdtemp tmpdirname fs) = Inr ()"
    and "save_uploaded tmpdirname files [] (snd (mkdtemp tmpdirname fs)) = (Inr filenames, fs2)"
    and "record_path_of tmpdirname filenames = Inr record_path"
  shows "predict_ecg_file rdrecord predict tmpdirname files fs
           = (except_clauses (read_and_predict rdrecord predict record_path fs2),
              rmtree tmpdirname fs2)"
proof -
  obtain fs1 where m: "mkdtemp tmpdirname fs = (Inr (), fs1)"
    using assms(2) by (cases "mkdtemp tmpdirname fs") auto
  then have s: "save_uploaded tmpdirname files [] fs1 = (Inr filenames, fs2)"
    using assms(3) by simp
  show ?thesis
    by (simp add: predict_ecg_file_def with_TemporaryDirectory_def staged_body_def
        assms(1) m s assms(4) except_clauses_def split: sum.splits exn.splits)
qed

lemma rmtree_under: "is_under (parts tmpdirname) p \<Longrightarrow> rmtree tmpdirname fs p = None"
  by (simp add: rmtree_def)

lemma with_TemporaryDirectory_clean:
  assumes "fst (mkdtemp tmpdirname fs) = Inr ()" and "is_under (parts tmpdirname) p"
  shows "snd (with_TemporaryDirectory tmpdirname body fs) p = None"
  using assms
  by (auto simp: with_TemporaryDirectory_def rmtree_under split: prod.splits sum.splits)

lemma snd_predict_ecg_file:
  "snd (predict_ecg_file rdrecord predict tmpdirname files fs)
     = (case validate_files files of
          Inl e \<Rightarrow> fs
        | Inr u \<Rightarrow> snd (with_TemporaryDirectory tmpdirname
                         (staged_body rdrecord predict tmpdirname files) fs))"
  by (auto simp: predict_ecg_file_def split: prod.splits sum.splits exn.splits)

lemma snd_post_predict_file:
  "snd (post_predict_file rdrecord predict tmpdirname files fs)
     = snd (predict_ecg_file rdrecord predict tmpdirname files fs)"
  by (auto simp: post_predict_file_def split: prod.splits sum.splits exn.splits)

text \<open>
  Claim C5. Once validation has passed and the temporary directory has been created,
  nothing at or below the directory is left in the file system when the handler returns:
  whatever the staging loop, the reader, the model and the statistics do, return or
  raise. The files of the request are there only while the block runs.
\<close>

theorem staging_directory_removed:
  assumes "validate_files files = Inr ()"
    and "fst (mkdtemp tmpdirname fs) = Inr ()"
  shows "\<forall>p. is_under (parts tmpdirname) p
           \<longrightarrow> snd (predict_ecg_file rdrecord predict tmpdirname files fs) p = None
             \<and> snd (post_predict_file rdrecord predict tmpdirname files fs) p = None"
  using assms
  by (simp add: snd_post_predict_file snd_predict_ecg_file with_TemporaryDirectory_clean)

text \<open>The example request passes validation and staging; its record path is found.\<close>

lemma example_valid: "validate_files example_files = Inr ()"
  unfolding example_files_def by code_simp

lemma example_mkdtemp: "fst (mkdtemp ''/tmp/tmpab12'' example_fs) = Inr ()"
  unfolding example_fs_def by code_simp

lemma example_saved:
  "fst (save_uploaded ''/tmp/tmpab12'' example_files []
          (snd (mkdtemp ''/tmp/tmpab12'' example_fs)))
     = Inr [''/tmp/tmpab12/rec100.hea'', ''/tmp/tmpab12/rec100.dat'']"
  unfolding example_fs_def example_files_def by code_simp

lemma example_record_path:
  "record_path_of ''/tmp/tmpab12'' [''/tmp/tmpab12/rec100.hea'', ''/tmp/tmpab12/rec100.dat'']
     = Inr ''/tmp/tmpab12/rec100''"
  by code_simp

lemma example_staged_header:
  "snd (save_uploaded ''/tmp/tmpab12'' example_files []
          (snd (mkdtemp ''/tmp/tmpab12'' example_fs)))
       [''tmp'', ''tmpab12'', ''rec100.hea''] = Some (File ''header'')"
  unfolding example_fs_def example_files_def by code_simp

lemma except_clauses_http:
  "except_clauses r \<noteq> Inl (Exception msg)"
  by (simp add: except_clauses_def split: sum.splits exn.splits)

lemma predict_ecg_file_raises_http_only:
  "fst (predict_ecg_file rdrecord predict tmpdirname files fs) \<noteq> Inl (Exception msg)"
  by (simp add: predict_ecg_file_def except_clauses_http split: prod.splits)

lemma post_predict_file_http:
  assumes "fst (predict_ecg_file rdrecord predict tmpdirname files fs) = Inl (HTTPException sc d)"
  shows "fst (post_predict_file rdrecord predict tmpdirname files fs)
           = \<lparr>status_code = sc, content = [(''detail'', JStr d)]\<rparr>"
  using assms
  by (cases "predict_ecg_file rdrecord predict tmpdirname files fs")
     (simp add: post_predict_file_def http_exception_handler_def)

lemma reader_failure_route:
  assumes "validate_files files = Inr ()"
    and "fst (mkdtemp tmpdirname fs) = Inr ()"
    and "save_uploaded tmpdirname files [] (snd (mkdtemp tmpdirname fs)) = (Inr filenames, fs2)"
    and "record_path_of tmpdirname filenames = Inr record_path"
    and "rdrecord fs2 record_path = Inl e"
  shows "fst (predict_ecg_file rdrecord predict tmpdirname files fs)
           = Inl (HTTPException 400 (''Failed to read ECG files: '' @ str_exn e))"
  by (simp add: predict_ecg_file_staged [OF assms(1-4)] read_and_predict_def assms(5)
      except_clauses_def)

text \<open>
  Claim C6. When the reader raises on the staged record, the response has status 400
  and its detail is \<^verbatim>\<open>Failed to read ECG files: \<close> followed by \<^verbatim>\<open>str(e)\<close>, the
  message of the reader's exception; the model is not consulted and no 500 results.
\<close>

theorem reader_exception_is_400:
  assumes "validate_files files = Inr ()"
    and "fst (mkdtemp tmpdirname fs) = Inr ()"
    and "save_uploaded tmpdirname files [] (snd (mkdtemp tmpdirname fs)) = (Inr filenames, fs2)"
    and "record_path_of tmpdirname filenames = Inr record_path"
    and "rdrecord fs2 record_path = Inl e"
  shows "fst (post_predict_file rdrecord predict tmpdirname files fs)
           = \<lparr>status_code = 400,
              content = [(''detail'', JStr (''Failed to read ECG files: '' @ str_exn e))]\<rparr>
         \<and> str_exn (Exception msg) = msg"
proof -
  have "fst (predict_ecg_file rdrecord predict tmpdirname files fs)
      = Inl (HTTPException 400 (''Failed to read ECG files: '' @ str_exn e))"
    using assms by (rule reader_failure_route)
  from post_predict_file_http [OF this] show ?thesis
    by (simp add: str_exn_def)
qed

lemma example_saved_pair:
  "save_uploaded ''/tmp/tmpab12'' example_files [] (snd (mkdtemp ''/tmp/tmpab12'' example_fs))
     = (Inr [''/tmp/tmpab12/rec100.hea'', ''/tmp/tmpab12/rec100.dat''],
        snd (save_uploaded ''/tmp/tmpab12'' example_files []
               (snd (mkdtemp ''/tmp/tmpab12'' example_fs))))"
  using example_saved by (simp add: prod_eq_iff)

theorem reader_exception_is_400_witness:
  "fst (post_predict_file failing_rdrecord failing_predict ''/tmp/tmpab12''
          example_files example_fs)
     = \<lparr>status_code = 400,
        content = [(''detail'', JStr ''Failed to read ECG files: invalid header line'')]\<rparr>"
proof -
  have r: "failing_rdrecord
      (snd (save_uploaded ''/tmp/tmpab12'' example_files []
              (snd (mkdtemp ''/tmp/tmpab12'' example_fs))))
      ''/tmp/tmpab12/rec100'' = Inl (Exception ''invalid header line'')"
    by (simp add: failing_rdrecord_def)
  show ?thesis
    using reader_exception_is_400 [where rdrecord = failing_rdrecord
          and e = "Exception ''invalid header line''" and predict = failing_predict
          and msg = "''invalid header line''", OF example_valid example_mkdtemp example_saved_pair example_record_path r]
    by simp
qed

theorem staging_directory_removed_witness:
  "snd (save_uploaded ''/tmp/tmpab12'' example_files []
          (snd (mkdtemp ''/tmp/tmpab12'' example_fs)))
       [''tmp'', ''tmpab12'', ''rec100.hea''] = Some (File ''header'')
   \<and> snd (post_predict_file failing_rdrecord failing_predict ''/tmp/tmpab12''
            example_files example_fs) [''tmp'', ''tmpab12'', ''rec100.hea''] = None
   \<and> snd (post_predict_file failing_rdrecord failing_predict ''/tmp/tmpab12''
            example_files example_fs) [''tmp'', ''tmpab12''] = None"
proof -
  have u1: "is_under (parts ''/tmp/tmpab12'') [''tmp'', ''tmpab12'', ''rec100.hea'']"
    by code_simp
  have u2: "is_under (parts ''/tmp/tmpab12'') [''tmp'', ''tmpab12'']"
    by code_simp
  note rm = staging_directory_removed [OF example_valid example_mkdtemp, THEN spec, THEN mp]
  show ?thesis
    using rm [OF u1] rm [OF u2] example_staged_header by simp
qed

lemma example_read: "example_rdrecord
     (snd (save_uploaded ''/tmp/tmpab12'' example_files []
             (snd (mkdtemp ''/tmp/tmpab12'' example_fs))))
     ''/tmp/tmpab12/rec100'' = Inr [[0, 1], [2, 1]]"
proof -
  have "snd (save_uploaded ''/tmp/tmpab12'' example_files []
          (snd (mkdtemp ''/tmp/tmpab12'' example_fs)))
       [''tmp'', ''tmpab12'', ''rec100.dat''] = Some (File ''data'')"
    unfolding example_fs_def example_files_def by code_simp
  then show ?thesis
    using example_staged_header by (simp add: example_rdrecord_def)
qed

text \<open>
  Claim C1 at a concrete request. The upload is valid, the record is staged and read, and
  the model raises an exception with the message \<^verbatim>\<open>boom\<close>. The \<^verbatim>\<open>except\<close> clause
  of lines 185-190 turns it into an \<^verbatim>\<open>HTTPException\<close>, so the response is a 500 whose
  detail is \<^verbatim>\<open>Internal server error: boom\<close>: the raw text is in it, and it is not the
  response of \<^verbatim>\<open>global_exception_handler\<close>, which this exception never reaches.
\<close>

theorem predict_exception_leaks_message:
  "fst (post_predict_file example_rdrecord failing_predict ''/tmp/tmpab12''
          example_files example_fs)
     = \<lparr>status_code = 500, content = [(''detail'', JStr ''Internal server error: boom'')]\<rparr>
   \<and> fst (post_predict_file example_rdrecord failing_predict ''/tmp/tmpab12''
            example_files example_fs)
       \<noteq> global_exception_handler (Exception ''boom'')"
proof -
  have "fst (predict_ecg_file example_rdrecord failing_predict ''/tmp/tmpab12''
          example_files example_fs)
      = Inl (HTTPException 500 (''Internal server error: '' @ ''boom''))"
    by (simp add: predict_ecg_file_staged [OF example_valid example_mkdtemp example_saved_pair example_record_path]
        read_and_predict_def example_read failing_predict_def except_clauses_def Let_def)
  from post_predict_file_http [OF this] show ?thesis
    by (simp add: global_exception_handler_def)
qed

text \<open>
  Claim C2, as stated: every error body carries \<^verbatim>\<open>success\<close>, \<^verbatim>\<open>error\<close> and
  \<^verbatim>\<open>detail\<close>. For an empty upload the body is \<^verbatim>\<open>{"detail": "No files uploaded"}\<close>:
  it has neither a \<^verbatim>\<open>success\<close> nor an \<^verbatim>\<open>error\<close> field.
\<close>

theorem error_body_without_success_counterexample:
  "fst (post_predict_file example_rdrecord failing_predict ''/tmp/tmpab12'' [] example_fs)
     = \<lparr>status_code = 400, content = [(''detail'', JStr ''No files uploaded'')]\<rparr>
   \<and> map_of (content (fst (post_predict_file example_rdrecord failing_predict
                ''/tmp/tmpab12'' [] example_fs))) ''success'' = None
   \<and> map_of (content (fst (post_predict_file example_rdrecord failing_predict
                ''/tmp/tmpab12'' [] example_fs))) ''error'' = None"
proof -
  have "validate_files [] = Inl (HTTPException 400 ''No files uploaded'')"
    by (simp add: validate_files_def)
  then have "fst (predict_ecg_file example_rdrecord failing_predict ''/tmp/tmpab12'' []
      example_fs) = Inl (HTTPException 400 ''No files uploaded'')"
    by (simp add: predict_ecg_file_invalid)
  from post_predict_file_http [OF this] show ?thesis by simp
qed

text \<open>
  Claim C2, amended. A request that fails validation (empty upload, no allowed
  extension, oversized file) or reading (the reader raises) is answered with the status
  code of the \<^verbatim>\<open>HTTPException\<close>, 400 or 413, and a body whose only field is
  \<^verbatim>\<open>detail\<close>. The body with \<^verbatim>\<open>success = false\<close>, \<^verbatim>\<open>error\<close> and \<^verbatim>\<open>detail\<close>
  is the one \<^verbatim>\<open>global_exception_handler\<close> builds, with status 500.
\<close>

theorem client_error_body:
  "(validate_files files = Inl e \<longrightarrow>
      (\<exists>sc d. e = HTTPException sc d \<and> (sc = 400 \<or> sc = 413)
         \<and> fst (post_predict_file rdrecord predict tmpdirname files fs)
             = \<lparr>status_code = sc, content = [(''detail'', JStr d)]\<rparr>))
   \<and> (validate_files files = Inr ()
        \<and> fst (mkdtemp tmpdirname fs) = Inr ()
        \<and> save_uploaded tmpdirname files [] (snd (mkdtemp tmpdirname fs)) = (Inr filenames, fs2)
        \<and> record_path_of tmpdirname filenames = Inr record_path
        \<and> rdrecord fs2 record_path = Inl e' \<longrightarrow>
      fst (post_predict_file rdrecord predict tmpdirname files fs)
        = \<lparr>status_code = 400,
           content = [(''detail'', JStr (''Failed to read ECG files: '' @ str_exn e'))]\<rparr>)
   \<and> global_exception_handler exc
       = \<lparr>status_code = 500,
          content = [(''success'', JBool False), (''error'', JStr ''Internal server error''),
                     (''detail'', JStr ''An unexpected error occurred'')]\<rparr>"
proof (intro conjI impI)
  assume v: "validate_files files = Inl e"
  then obtain sc d where e: "e = HTTPException sc d" "sc = 400 \<or> sc = 413"
    using validate_files_error_cases by blast
  have "fst (predict_ecg_file rdrecord predict tmpdirname files fs) = Inl (HTTPException sc d)"
    using v e(1) by (simp add: predict_ecg_file_invalid)
  from post_predict_file_http [OF this] e
  show "\<exists>sc d. e = HTTPException sc d \<and> (sc = 400 \<or> sc = 413)
         \<and> fst (post_predict_file rdrecord predict tmpdirname files fs)
             = \<lparr>status_code = sc, content = [(''detail'', JStr d)]\<rparr>"
    by blast
next
  assume h: "validate_files files = Inr ()
        \<and> fst (mkdtemp tmpdirname fs) = Inr ()
        \<and> save_uploaded tmpdirname files [] (snd (mkdtemp tmpdirname fs)) = (Inr filenames, fs2)
        \<and> record_path_of tmpdirname filenames = Inr record_path
        \<and> rdrecord fs2 record_path = Inl e'"
  then have "fst (predict_ecg_file rdrecord predict tmpdirname files fs)
           = Inl (HTTPException 400 (''Failed to read ECG files: '' @ str_exn e'))"
    by (intro reader_failure_route) auto
  from post_predict_file_http [OF this]
  show "fst (post_predict_file rdrecord predict tmpdirname files fs)
        = \<lparr>status_code = 400,
           content = [(''detail'', JStr (''Failed to read ECG files: '' @ str_exn e'))]\<rparr>" .
next
  show "global_exception_handler exc
       = \<lparr>status_code = 500,
          content = [(''success'', JBool False), (''error'', JStr ''Internal server error''),
                     (''detail'', JStr ''An unexpected error occurred'')]\<rparr>"
    by (simp add: global_exception_handler_def)
qed

theorem client_error_body_witness:
  "fst (post_predict_file example_rdrecord failing_predict ''/tmp/tmpab12''
          [\<lparr>filename = ''rec100.dat'', file_content = [], size_attr = Some 15728640\<rparr>]
          example_fs)
     = \<lparr>status_code = 413,
        content = [(''detail'', JStr ''File rec100.dat is too large. Max size: 10MB'')]\<rparr>
   \<and> fst (post_predict_file failing_rdrecord failing_predict ''/tmp/tmpab12''
            example_files example_fs)
     = \<lparr>status_code = 400,
        content = [(''detail'', JStr ''Failed to read ECG files: invalid header line'')]\<rparr>"
proof -
  let ?big = "[\<lparr>filename = ''rec100.dat'', file_content = [], size_attr = Some 15728640\<rparr>]"
  have v: "validate_files ?big
      = Inl (HTTPException 413 ''File rec100.dat is too large. Max size: 10MB'')"
    by code_simp
  have a: "fst (post_predict_file example_rdrecord failing_predict ''/tmp/tmpab12'' ?big
      example_fs)
     = \<lparr>status_code = 413,
        content = [(''detail'', JStr ''File rec100.dat is too large. Max size: 10MB'')]\<rparr>"
    using client_error_body [of ?big
        "HTTPException 413 ''File rec100.dat is too large. Max size: 10MB''"
        example_rdrecord failing_predict "''/tmp/tmpab12''" example_fs] v
    by simp
  have r: "failing_rdrecord
      (snd (save_uploaded ''/tmp/tmpab12'' example_files []
              (snd (mkdtemp ''/tmp/tmpab12'' example_fs))))
      ''/tmp/tmpab12/rec100'' = Inl (Exception ''invalid header line'')"
    by (simp add: failing_rdrecord_def)
  have b: "fst (post_predict_file failing_rdrecord failing_predict ''/tmp/tmpab12''
            example_files example_fs)
     = \<lparr>status_code = 400,
        content = [(''detail'', JStr ''Failed to read ECG files: invalid header line'')]\<rparr>"
    using client_error_body [of example_files _ failing_rdrecord failing_predict
        "''/tmp/tmpab12''" example_fs
        "[''/tmp/tmpab12/rec100.hea'', ''/tmp/tmpab12/rec100.dat'']"
        "snd (save_uploaded ''/tmp/tmpab12'' example_files []
                (snd (mkdtemp ''/tmp/tmpab12'' example_fs)))"
        "''/tmp/tmpab12/rec100''" "Exception ''invalid header line''"]
      example_valid example_mkdtemp example_saved_pair example_record_path r
    by (simp add: str_exn_def)
  show ?thesis using a b by simp
qed

end
